theory Spec2Isabelle
  imports Main "HOL-Library.Log_Nat"
begin

section \<open>The completion client with a secondary key (lib/gemini-client.ts)\<close>

text \<open>
  The module keeps two clients in module-level variables, both \<open>null\<close> at load time.
  A client is identified by the API key it was constructed with. The state of the model
  also keeps the log of the \<open>chat.sendMessage\<close> calls issued so far, each with the key
  of the client that issued it, so that the number of completion attempts and the
  credential of each can be read off.
\<close>

type_synonym api_key = string

record gemini_env =
  GEMINI_API_KEY_1 :: "string option"
  GEMINI_API_KEY_2 :: "string option"

record gemini_state =
  client1 :: "api_key option"
  client2 :: "api_key option"
  calls :: "(api_key \<times> string) list"

datatype js_error = Error string

fun message :: "js_error \<Rightarrow> string" where
  "message (Error m) = m"

text \<open>
  The hosted API is outside the repository. It is a parameter: the outcome of the
  \<open>n\<close>-th \<open>sendMessage\<close> call of the process (counting from 0), given the key and the
  prompt, is either a thrown error or the text of the response. The index lets the same
  key fail once and succeed later, as a network service can.
\<close>

type_synonym provider = "nat \<Rightarrow> api_key \<Rightarrow> string \<Rightarrow> js_error + string"

definition initial_state :: gemini_state where
  "initial_state = \<lparr>client1 = None, client2 = None, calls = []\<rparr>"

text \<open>JavaScript truthiness of an environment variable: unset and the empty string are falsy.\<close>

fun truthy :: "string option \<Rightarrow> bool" where
  "truthy None = False"
| "truthy (Some s) = (s \<noteq> [])"

definition initializeClients :: "gemini_env \<Rightarrow> gemini_state \<Rightarrow> js_error + gemini_state" where
  "initializeClients env st =
     (let apiKey1 = GEMINI_API_KEY_1 env;
          apiKey2 = GEMINI_API_KEY_2 env;
          st1 = (if truthy apiKey1 then st\<lparr>client1 := apiKey1\<rparr> else st);
          st2 = (if truthy apiKey2 then st1\<lparr>client2 := apiKey2\<rparr> else st1)
      in if \<not> truthy apiKey1 \<and> \<not> truthy apiKey2
         then Inl (Error ''No Gemini API keys configured'')
         else Inr st2)"

text \<open>
  \<open>getGeminiClient\<close> initialises lazily, then returns the secondary client only when it
  was asked for and exists, and \<open>client1 || client2\<close> in every other case.
\<close>

definition getGeminiClient ::
  "gemini_env \<Rightarrow> bool \<Rightarrow> gemini_state \<Rightarrow> js_error + (api_key option \<times> gemini_state)" where
  "getGeminiClient env useSecondary st =
     (case (if client1 st = None \<and> client2 st = None then initializeClients env st else Inr st) of
        Inl e \<Rightarrow> Inl e
      | Inr st' \<Rightarrow>
          if useSecondary \<and> client2 st' \<noteq> None then Inr (client2 st', st')
          else Inr ((case client1 st' of Some c \<Rightarrow> Some c | None \<Rightarrow> client2 st'), st'))"

text \<open>
  \<open>getGeminiModel\<close> returns a model object bound to the client; the object is never
  falsy, so the model of it is the client's key.
\<close>

definition getGeminiModel ::
  "gemini_env \<Rightarrow> bool \<Rightarrow> gemini_state \<Rightarrow> js_error + (api_key \<times> gemini_state)" where
  "getGeminiModel env useSecondary st =
     (case getGeminiClient env useSecondary st of
        Inl e \<Rightarrow> Inl e
      | Inr (None, st') \<Rightarrow> Inl (Error ''Gemini client not initialized'')
      | Inr (Some c, st') \<Rightarrow> Inr (c, st'))"

text \<open>\<open>chat.sendMessage(message)\<close> followed by \<open>result.response.text()\<close>: one logged call.\<close>

definition sendMessage ::
  "provider \<Rightarrow> api_key \<Rightarrow> string \<Rightarrow> gemini_state \<Rightarrow> (js_error + string) \<times> gemini_state" where
  "sendMessage p k msg st = (p (length (calls st)) k msg, st\<lparr>calls := calls st @ [(k, msg)]\<rparr>)"

text \<open>
  The body of each of the two \<open>try\<close> blocks of \<open>sendMessageWithFallback\<close>: obtain the
  model (primary for the first block, \<open>useSecondary = true\<close> for the second), start a
  chat and send the message. The check \<open>if (!model)\<close> of the second block never fires,
  because \<open>getGeminiModel\<close> either throws or returns an object. An exception thrown
  while the clients are initialised leaves the module variables as they were.
\<close>

definition attempt ::
  "gemini_env \<Rightarrow> provider \<Rightarrow> bool \<Rightarrow> string \<Rightarrow> gemini_state \<Rightarrow> (js_error + string) \<times> gemini_state" where
  "attempt env p useSecondary msg st =
     (case getGeminiModel env useSecondary st of
        Inl e \<Rightarrow> (Inl e, st)
      | Inr (k, st') \<Rightarrow> sendMessage p k msg st')"

definition sendMessageWithFallback ::
  "gemini_env \<Rightarrow> provider \<Rightarrow> string \<Rightarrow> gemini_state \<Rightarrow> (js_error + string) \<times> gemini_state" where
  "sendMessageWithFallback env p msg st =
     (case attempt env p False msg st of
        (Inr text, st1) \<Rightarrow> (Inr text, st1)
      | (Inl e1, st1) \<Rightarrow>
          (case attempt env p True msg st1 of
             (Inr text, st2) \<Rightarrow> (Inr text, st2)
           | (Inl lastError, st2) \<Rightarrow>
               (Inl (Error (''Failed with both Gemini API keys: '' @ message lastError)), st2)))"

text \<open>An error message names a cause when the cause's message occurs in it.\<close>

fun is_prefix :: "string \<Rightarrow> string \<Rightarrow> bool" where
  "is_prefix [] ys = True"
| "is_prefix (x # xs) [] = False"
| "is_prefix (x # xs) (y # ys) = (x = y \<and> is_prefix xs ys)"

fun names :: "string \<Rightarrow> string \<Rightarrow> bool" where
  "names [] cause = (cause = [])"
| "names (c # cs) cause = (is_prefix cause (c # cs) \<or> names cs cause)"

text \<open>Environments and providers used to run the client on concrete inputs.\<close>

definition primary_only_env :: gemini_env where
  "primary_only_env = \<lparr>GEMINI_API_KEY_1 = Some ''k1'', GEMINI_API_KEY_2 = None\<rparr>"

definition both_keys_env :: gemini_env where
  "both_keys_env = \<lparr>GEMINI_API_KEY_1 = Some ''k1'', GEMINI_API_KEY_2 = Some ''k2''\<rparr>"

definition no_keys_env :: gemini_env where
  "no_keys_env = \<lparr>GEMINI_API_KEY_1 = None, GEMINI_API_KEY_2 = Some []\<rparr>"

definition outage :: provider where
  "outage n k msg =
     (if k = ''k1'' then Inl (Error ''quota exceeded'') else Inl (Error ''invalid key''))"

definition flaky :: provider where
  "flaky n k msg = (if n = 0 then Inl (Error ''timeout'') else Inr (''pong from '' @ k))"

section \<open>Signup, login and token verification (app/api/auth, lib/auth-middleware.ts)\<close>

text \<open>
  A JSON response is its status and the fields of its body. The token is a string on the
  wire; the model keeps it in parsed form. \<open>jsonwebtoken\<close> is a library outside the
  repository: the keyed hash it signs with is a parameter \<open>mac\<close>, and \<open>jwt_sign\<close> and
  \<open>jwt_verify\<close> follow the library's documented behaviour (the signature covers the
  claims, \<open>expiresIn: "30d"\<close> sets \<open>exp = iat + 2592000\<close> seconds, verification throws
  on a malformed token, on a signature made with another secret, and from \<open>exp\<close> on).
\<close>

record AuthUser =
  user_id :: string
  user_name :: string
  user_email :: string

datatype token = Malformed string | Signed AuthUser nat nat string

type_synonym mac = "string \<Rightarrow> AuthUser \<times> nat \<times> nat \<Rightarrow> string"

definition jwt_sign :: "mac \<Rightarrow> AuthUser \<Rightarrow> string \<Rightarrow> nat \<Rightarrow> token" where
  "jwt_sign h payload secret now =
     (let iat = now; expires = now + 30 * 24 * 60 * 60
      in Signed payload iat expires (h secret (payload, iat, expires)))"


record auth_env =
  JWT_SECRET :: "string option"

text \<open>\<open>process.env.X || d\<close>: the default replaces an unset or empty variable.\<close>

fun or_default :: "string option \<Rightarrow> string \<Rightarrow> string" where
  "or_default None d = d"
| "or_default (Some s) d = (if s = [] then d else s)"

text \<open>The two modules each compute their own \<open>JWT_SECRET\<close> constant.\<close>

definition login_JWT_SECRET :: "auth_env \<Rightarrow> string" where
  "login_JWT_SECRET env = or_default (JWT_SECRET env) ''your-secret-key-change-in-production''"



datatype json =
    JString string | JBool bool | JNumber int | JNull | JToken token
  | JObject "(string \<times> json) list"

record response =
  status :: nat
  body :: "(string \<times> json) list"

text \<open>\<open>Response.json(obj)\<close> answers 200 unless a status is given.\<close>

definition Response_json :: "(string \<times> json) list \<Rightarrow> response" where
  "Response_json obj = \<lparr>status = 200, body = obj\<rparr>"

definition Response_json_status :: "(string \<times> json) list \<Rightarrow> nat \<Rightarrow> response" where
  "Response_json_status obj st = \<lparr>status = st, body = obj\<rparr>"

text \<open>
  The document store is MongoDB, outside the repository. The model keeps the two
  collections the handlers touch as lists in insertion order; \<open>findOne({email})\<close> is the
  first document with that email. Every awaited call can throw: \<open>faults\<close> says which of
  them does, with which error, in the request at hand.

  The \<open>users\<close> collection is written by the signup handler, which stores a password
  hash, and by the Google \<open>signIn\<close> callback of the NextAuth configuration, which
  inserts \<open>{name, email, image, role, provider: "google", ...}\<close> with no \<open>password\<close>
  field. So the hash of a document is optional.
\<close>

record user_doc =
  doc_id :: string
  doc_name :: string
  doc_email :: string
  doc_password :: "string option"
  doc_role :: string
  doc_provider :: string
  doc_createdAt :: nat
  doc_updatedAt :: nat

record stats_doc =
  stats_userId :: string
  stats_questionsAsked :: nat
  stats_topicsLearned :: "string list"
  stats_totalAccuracy :: nat
  stats_accuracyCount :: nat
  stats_lastActiveDate :: nat
  stats_streak :: nat
  stats_coursesEnrolled :: "string list"
  stats_createdAt :: nat
  stats_updatedAt :: nat

record db =
  users :: "user_doc list"
  userStats :: "stats_doc list"

record faults =
  connectDB_throws :: "js_error option"
  findOne_throws :: "js_error option"
  bcrypt_throws :: "js_error option"
  insertOne_users_throws :: "js_error option"
  insertOne_userStats_throws :: "js_error option"

definition no_faults :: faults where
  "no_faults = \<lparr>connectDB_throws = None, findOne_throws = None, bcrypt_throws = None,
     insertOne_users_throws = None, insertOne_userStats_throws = None\<rparr>"

definition findOne_email :: "db \<Rightarrow> string \<Rightarrow> user_doc option" where
  "findOne_email d e = find (\<lambda>u. doc_email u = e) (users d)"

text \<open>The \<open>catch\<close> clause of a handler: status 500 with \<open>error.message || fallback\<close>.\<close>

definition caught :: "string \<Rightarrow> js_error \<Rightarrow> response" where
  "caught fallback e =
     Response_json_status
       [(''error'', JString (if message e = [] then fallback else message e))] 500"

text \<open>
  The parsed body of a request: a field is absent or a string. \<open>req.json()\<close> itself can
  throw on a body that is not JSON.
\<close>

record signup_body =
  name :: "string option"
  email :: "string option"
  password :: "string option"

text \<open>
  The login handler passes the password of the body to \<open>bcrypt.compare\<close> as it is, so
  for this field the model keeps any JSON value. Truthiness is JavaScript's. The email
  is taken to be absent or a string.
\<close>

record login_body =
  login_email :: "string option"
  login_password :: "json option"

fun truthy_json :: "json option \<Rightarrow> bool" where
  "truthy_json None = False"
| "truthy_json (Some (JString s)) = (s \<noteq> [])"
| "truthy_json (Some (JBool b)) = b"
| "truthy_json (Some (JNumber n)) = (n \<noteq> 0)"
| "truthy_json (Some JNull) = False"
| "truthy_json (Some (JToken t)) = True"
| "truthy_json (Some (JObject fs)) = True"

text \<open>
  \<open>bcrypt.compare(data, hash)\<close> of the \<open>bcrypt\<close> package, outside the repository. The
  comparison of a password with a hash is the parameter \<open>bcompare\<close>; before comparing,
  the package rejects a missing argument and an argument that is not a string, and the
  promise the handler awaits then throws.
\<close>

definition bcrypt_compare ::
  "(string \<Rightarrow> string \<Rightarrow> bool) \<Rightarrow> json \<Rightarrow> string option \<Rightarrow> js_error + bool" where
  "bcrypt_compare bcompare data hash =
     (case hash of
        None \<Rightarrow> Inl (Error ''data and hash arguments required'')
      | Some hsh \<Rightarrow>
          (case data of
             JString p \<Rightarrow> Inr (bcompare p hsh)
           | _ \<Rightarrow> Inl (Error ''data and hash must be strings'')))"

text \<open>
  The signup handler. \<open>bhash\<close> is \<open>bcrypt.hash(password, 10)\<close>, \<open>insertedId\<close> the id the
  store gives the new document, \<open>now\<close> the value of \<open>new Date()\<close>. The second component
  is the store after the request: a throw after the first insert leaves the user in it.
\<close>

definition signup_POST ::
  "faults \<Rightarrow> (string \<Rightarrow> string) \<Rightarrow> string \<Rightarrow> nat \<Rightarrow> js_error + signup_body \<Rightarrow> db \<Rightarrow> response \<times> db" where
  "signup_POST F bhash insertedId now req d =
     (case req of
        Inl e \<Rightarrow> (caught ''Signup failed'' e, d)
      | Inr b \<Rightarrow>
          if \<not> truthy (name b) \<or> \<not> truthy (email b) \<or> \<not> truthy (password b)
          then (Response_json_status [(''error'', JString ''Missing required fields'')] 400, d)
          else
            (case (name b, email b, password b) of
               (Some n, Some e, Some p) \<Rightarrow>
                 (case connectDB_throws F of
                    Some err \<Rightarrow> (caught ''Signup failed'' err, d)
                  | None \<Rightarrow>
                 (case findOne_throws F of
                    Some err \<Rightarrow> (caught ''Signup failed'' err, d)
                  | None \<Rightarrow>
                 (case findOne_email d e of
                    Some existingUser \<Rightarrow>
                      (Response_json_status [(''error'', JString ''User already exists'')] 400, d)
                  | None \<Rightarrow>
                 (case bcrypt_throws F of
                    Some err \<Rightarrow> (caught ''Signup failed'' err, d)
                  | None \<Rightarrow>
                 (case insertOne_users_throws F of
                    Some err \<Rightarrow> (caught ''Signup failed'' err, d)
                  | None \<Rightarrow>
                      (let d1 = d\<lparr>users := users d @
                                 [\<lparr>doc_id = insertedId, doc_name = n, doc_email = e,
                                   doc_password = Some (bhash p), doc_role = ''user'',
                                   doc_provider = ''credentials'',
                                   doc_createdAt = now, doc_updatedAt = now\<rparr>]\<rparr>
                       in (case insertOne_userStats_throws F of
                             Some err \<Rightarrow> (caught ''Signup failed'' err, d1)
                           | None \<Rightarrow>
                               (Response_json
                                  [(''success'', JBool True),
                                   (''user'', JObject [(''id'', JString insertedId),
                                                       (''name'', JString n),
                                                       (''email'', JString e)]),
                                   (''message'', JString ''Account created successfully'')],
                                d1\<lparr>userStats := userStats d1 @
                                   [\<lparr>stats_userId = insertedId, stats_questionsAsked = 0,
                                     stats_topicsLearned = [], stats_totalAccuracy = 0,
                                     stats_accuracyCount = 0, stats_lastActiveDate = now,
                                     stats_streak = 0, stats_coursesEnrolled = [],
                                     stats_createdAt = now, stats_updatedAt = now\<rparr>]\<rparr>))))))))
             | _ \<Rightarrow> (Response_json_status [(''error'', JString ''Missing required fields'')] 400, d)))"

text \<open>
  The login handler. \<open>now\<close> is the clock in seconds when the token is signed. The
  handler does not write to the store. The call of \<open>bcrypt.compare\<close> is inside the
  \<open>try\<close>: when it throws, the \<open>catch\<close> answers 500 with the error's message.
\<close>

definition login_POST ::
  "faults \<Rightarrow> (string \<Rightarrow> string \<Rightarrow> bool) \<Rightarrow> mac \<Rightarrow> auth_env \<Rightarrow> nat \<Rightarrow> js_error + login_body \<Rightarrow> db \<Rightarrow> response" where
  "login_POST F bcompare h env now req d =
     (case req of
        Inl e \<Rightarrow> caught ''Login failed'' e
      | Inr b \<Rightarrow>
          if \<not> truthy (login_email b) \<or> \<not> truthy_json (login_password b)
          then Response_json_status [(''error'', JString ''Email and password required'')] 400
          else
            (case (login_email b, login_password b) of
               (Some e, Some p) \<Rightarrow>
                 (case connectDB_throws F of
                    Some err \<Rightarrow> caught ''Login failed'' err
                  | None \<Rightarrow>
                 (case findOne_throws F of
                    Some err \<Rightarrow> caught ''Login failed'' err
                  | None \<Rightarrow>
                 (case findOne_email d e of
                    None \<Rightarrow>
                      Response_json_status [(''error'', JString ''Invalid email or password'')] 401
                  | Some user \<Rightarrow>
                 (case bcrypt_throws F of
                    Some err \<Rightarrow> caught ''Login failed'' err
                  | None \<Rightarrow>
                 (case bcrypt_compare bcompare p (doc_password user) of
                    Inl err \<Rightarrow> caught ''Login failed'' err
                  | Inr isValidPassword \<Rightarrow>
                      if \<not> isValidPassword
                      then Response_json_status
                             [(''error'', JString ''Invalid email or password'')] 401
                      else
                        (let userData = \<lparr>user_id = doc_id user, user_name = doc_name user,
                                          user_email = doc_email user\<rparr>;
                             token = jwt_sign h userData (login_JWT_SECRET env) now
                         in Response_json
                              [(''success'', JBool True),
                               (''user'', JObject [(''id'', JString (user_id userData)),
                                                   (''name'', JString (user_name userData)),
                                                   (''email'', JString (user_email userData))]),
                               (''token'', JToken token)]))))))
             | _ \<Rightarrow> Response_json_status [(''error'', JString ''Email and password required'')] 400))"

section \<open>Learning statistics kept in the browser (hooks/use-learning-stats.ts)\<close>

subsection \<open>JavaScript numbers\<close>

text \<open>
  The counters are JavaScript numbers holding integers, which are exact below \<open>2^53\<close>;
  they are modelled as \<open>int\<close>. The accuracy is computed with a division and a
  multiplication of doubles followed by \<open>Math.round\<close>, and the division is not exact,
  so the two operations are modelled as IEEE 754 binary64 does them: the exact result,
  rounded to the nearest double, ties to the even significand (\<open>fl\<close>). A finite double
  is the rational it denotes; results beyond the largest double do not occur here.
\<close>

definition pow2 :: "int \<Rightarrow> rat" where
  "pow2 k = (if k \<ge> 0 then 2 ^ nat k else 1 / 2 ^ nat (- k))"

text \<open>\<open>ilog2 q\<close> is the integer \<open>e\<close> with \<open>2^e \<le> |q| < 2^(e+1)\<close>, for \<open>q \<noteq> 0\<close>.\<close>

definition ilog2 :: "rat \<Rightarrow> int" where
  "ilog2 q =
     (let a = \<bar>q\<bar>
      in if a \<ge> 1 then int (floorlog 2 (nat \<lfloor>a\<rfloor>)) - 1
         else - int (floorlog 2 (nat (\<lceil>1 / a\<rceil> - 1))))"

definition round_ties_even :: "rat \<Rightarrow> int" where
  "round_ties_even x =
     (let f = \<lfloor>x\<rfloor>; r = x - of_int f
      in if r < 1 / 2 then f else if r > 1 / 2 then f + 1 else if even f then f else f + 1)"

definition fl :: "rat \<Rightarrow> rat" where
  "fl q =
     (if q = 0 then 0
      else let e = max (ilog2 q) (- 1022); ulp = pow2 (e - 52)
           in of_int (round_ties_even (q / ulp)) * ulp)"

definition js_div :: "rat \<Rightarrow> rat \<Rightarrow> rat" where
  "js_div x y = fl (x / y)"

definition js_mul :: "rat \<Rightarrow> rat \<Rightarrow> rat" where
  "js_mul x y = fl (x * y)"

text \<open>\<open>Math.round\<close>: the nearest integer, a tie going up.\<close>

definition Math_round :: "rat \<Rightarrow> int" where
  "Math_round x = \<lfloor>x + 1 / 2\<rfloor>"

text \<open>
  The expression \<open>Math.round((correct / attempts) * 100)\<close> of lines 137 and 161. Both
  uses are guarded by \<open>attempts > 0\<close>, so the division by zero of the definition (0 in
  HOL, not a number in JavaScript) is never evaluated.
\<close>

definition round_percent :: "int \<Rightarrow> int \<Rightarrow> int" where
  "round_percent correct attempts =
     Math_round (js_mul (js_div (of_int correct) (of_int attempts)) 100)"

text \<open>The percentage rounded exactly, a tie going up, for comparison.\<close>

definition exact_round_percent :: "int \<Rightarrow> int \<Rightarrow> int" where
  "exact_round_percent correct attempts = \<lfloor>(100 * of_int correct / of_int attempts :: rat) + 1 / 2\<rfloor>"

subsection \<open>The statistics and their updates\<close>

record DailyProgress =
  day :: string
  accuracy :: int
  date :: string

record LearningStats =
  questionsAsked :: int
  topicsLearned :: "string list"
  totalCorrect :: int
  totalAttempts :: int
  streakDays :: int
  lastActiveDate :: string
  dailyProgress :: "DailyProgress list"

definition getDefaultStats :: LearningStats where
  "getDefaultStats = \<lparr>questionsAsked = 0, topicsLearned = [], totalCorrect = 0,
     totalAttempts = 0, streakDays = 0, lastActiveDate = [], dailyProgress = []\<rparr>"

text \<open>
  \<open>updateStreak\<close> reads the clock twice: \<open>today\<close> is the value of
  \<open>new Date().toISOString().split("T")[0]\<close> and \<open>yesterday\<close> the same for the instant
  86400000 ms earlier. Both are parameters.
\<close>

definition updateStreak :: "string \<Rightarrow> string \<Rightarrow> LearningStats \<Rightarrow> LearningStats" where
  "updateStreak today yesterday currentStats =
     (if lastActiveDate currentStats = today then currentStats
      else if lastActiveDate currentStats = yesterday
      then currentStats\<lparr>streakDays := streakDays currentStats + 1, lastActiveDate := today\<rparr>
      else currentStats\<lparr>streakDays := (if lastActiveDate currentStats \<noteq> [] then 1 else 1),
                         lastActiveDate := today\<rparr>)"

text \<open>
  The values the clock expressions of one \<open>recordAnswer\<close> call evaluate to: the two of
  \<open>updateStreak\<close>, then \<open>today\<close> and the weekday name read by \<open>recordAnswer\<close> itself.
\<close>

record clock_reads =
  streak_today :: string
  streak_yesterday :: string
  today_read :: string
  dayName_read :: string

definition incrementQuestions :: "string \<Rightarrow> string \<Rightarrow> LearningStats \<Rightarrow> LearningStats" where
  "incrementQuestions today yesterday prev =
     (let updated = updateStreak today yesterday prev
      in updated\<lparr>questionsAsked := questionsAsked updated + 1\<rparr>)"

text \<open>\<open>xs.slice(-n)\<close>: the last \<open>n\<close> elements, all of them when there are fewer.\<close>

definition slice_last :: "nat \<Rightarrow> 'a list \<Rightarrow> 'a list" where
  "slice_last n xs = drop (length xs - n) xs"

definition addTopic :: "string \<Rightarrow> string \<Rightarrow> string \<Rightarrow> LearningStats \<Rightarrow> LearningStats" where
  "addTopic today yesterday topic prev =
     (if List.member (topicsLearned prev) topic then prev
      else let updated = updateStreak today yesterday prev
           in updated\<lparr>topicsLearned := slice_last 20 (topicsLearned updated @ [topic])\<rparr>)"

text \<open>\<open>findIndex\<close>: the first index whose element satisfies the test; \<open>None\<close> for -1.\<close>

fun findIndex :: "('a \<Rightarrow> bool) \<Rightarrow> 'a list \<Rightarrow> nat option" where
  "findIndex P [] = None"
| "findIndex P (x # xs) = (if P x then Some 0 else map_option Suc (findIndex P xs))"

definition recordAnswer :: "clock_reads \<Rightarrow> bool \<Rightarrow> LearningStats \<Rightarrow> LearningStats" where
  "recordAnswer c isCorrect prev =
     (let updated = updateStreak (streak_today c) (streak_yesterday c) prev;
          newTotalCorrect = totalCorrect updated + (if isCorrect then 1 else 0);
          newTotalAttempts = totalAttempts updated + 1;
          today = today_read c;
          dayName = dayName_read c;
          todayAccuracy = (if newTotalAttempts > 0
                           then round_percent newTotalCorrect newTotalAttempts else 0);
          entry = \<lparr>day = dayName, accuracy = todayAccuracy, date = today\<rparr>;
          dailyProgress' =
            (case findIndex (\<lambda>d. date d = today) (dailyProgress updated) of
               Some todayIndex \<Rightarrow> (dailyProgress updated)[todayIndex := entry]
             | None \<Rightarrow> slice_last 7 (dailyProgress updated @ [entry]))
      in updated\<lparr>totalCorrect := newTotalCorrect, totalAttempts := newTotalAttempts,
                 dailyProgress := dailyProgress'\<rparr>)"

definition avgAccuracy :: "LearningStats \<Rightarrow> int" where
  "avgAccuracy stats =
     (if totalAttempts stats > 0 then round_percent (totalCorrect stats) (totalAttempts stats)
      else 0)"

text \<open>The invariant of the daily list: at most seven buckets, no date twice.\<close>

definition daily_ok :: "LearningStats \<Rightarrow> bool" where
  "daily_ok s = (length (dailyProgress s) \<le> 7 \<and> distinct (map date (dailyProgress s)))"

text \<open>The clock of a call made entirely within one day.\<close>

definition on_day :: "string \<Rightarrow> string \<Rightarrow> string \<Rightarrow> clock_reads" where
  "on_day today yesterday weekday =
     \<lparr>streak_today = today, streak_yesterday = yesterday, today_read = today,
      dayName_read = weekday\<rparr>"

section \<open>Chat sessions kept in the browser (hooks/use-chat-history.ts)\<close>

datatype role = User | Assistant

record ChatMessage =
  msg_id :: string
  msg_role :: role
  content :: string
  timestamp :: string

record ChatSession =
  session_id :: string
  title :: string
  messages :: "ChatMessage list"
  createdAt :: string
  updatedAt :: string

record chat_state =
  sessions :: "ChatSession list"
  currentSessionId :: "string option"

definition MAX_SESSIONS :: nat where
  "MAX_SESSIONS = 50"

definition initial_chat :: chat_state where
  "initial_chat = \<lparr>sessions = [], currentSessionId = None\<rparr>"

text \<open>
  The three clock reads of \<open>createSession\<close> are parameters: \<open>nowId\<close> is
  \<open>Date.now().toString()\<close>, the other two are the ISO strings of \<open>createdAt\<close> and
  \<open>updatedAt\<close>.
\<close>

definition new_session :: "string \<times> string \<times> string \<Rightarrow> ChatSession" where
  "new_session t =
     (case t of (nowId, created, updated) \<Rightarrow>
        \<lparr>session_id = nowId, title = ''New Chat'', messages = [],
         createdAt = created, updatedAt = updated\<rparr>)"

definition createSession :: "string \<times> string \<times> string \<Rightarrow> chat_state \<Rightarrow> string \<times> chat_state" where
  "createSession t st =
     (let newSession = new_session t;
          updated = take MAX_SESSIONS (newSession # sessions st)
      in (session_id newSession,
          st\<lparr>sessions := updated, currentSessionId := Some (session_id newSession)\<rparr>))"

definition addMessage ::
  "string \<Rightarrow> role \<Rightarrow> string \<Rightarrow> string \<Rightarrow> string \<Rightarrow> string \<Rightarrow> chat_state \<Rightarrow> ChatMessage \<times> chat_state" where
  "addMessage sessionId r text nowId stamp updated st =
     (let newMessage = \<lparr>msg_id = nowId, msg_role = r, content = text, timestamp = stamp\<rparr>
      in (newMessage,
          st\<lparr>sessions :=
               map (\<lambda>session.
                      if session_id session = sessionId
                      then session\<lparr>title :=
                                     (if length (messages session) = 0 \<and> r = User
                                      then take 50 text @ (if length text > 50 then ''...'' else [])
                                      else title session),
                                   messages := messages session @ [newMessage],
                                   updatedAt := updated\<rparr>
                      else session)
                   (sessions st)\<rparr>))"

text \<open>
  \<open>deleteSession\<close> is a callback that depends on \<open>currentSessionId\<close>: the value it
  compares with is the one of the render that created the callback, \<open>captured\<close>, which
  is behind the state when another call of the same event has changed it. The list is
  filtered from the state as it is.
\<close>

definition deleteSession :: "string option \<Rightarrow> string \<Rightarrow> chat_state \<Rightarrow> chat_state" where
  "deleteSession captured sessionId st =
     st\<lparr>sessions := filter (\<lambda>s. session_id s \<noteq> sessionId) (sessions st),
        currentSessionId := (if captured = Some sessionId then None
                             else currentSessionId st)\<rparr>"

definition clearAllSessions :: "chat_state \<Rightarrow> chat_state" where
  "clearAllSessions st = st\<lparr>sessions := [], currentSessionId := None\<rparr>"

definition loadSession :: "string \<Rightarrow> chat_state \<Rightarrow> chat_state" where
  "loadSession sessionId st = st\<lparr>currentSessionId := Some sessionId\<rparr>"

text \<open>What the hook hands out and saves: the sessions that have a message.\<close>

definition sessionsWithMessages :: "chat_state \<Rightarrow> ChatSession list" where
  "sessionsWithMessages st = filter (\<lambda>s. length (messages s) > 0) (sessions st)"

text \<open>
  A run of the hook is a sequence of calls of its operations. A deletion carries the
  \<open>currentSessionId\<close> its callback has captured, which can be any earlier value.
\<close>

datatype chat_op =
    CreateSession "string \<times> string \<times> string"
  | AddMessage string role string string string string
  | DeleteSession "string option" string
  | ClearAllSessions
  | LoadSession string

fun apply_chat_op :: "chat_state \<Rightarrow> chat_op \<Rightarrow> chat_state" where
  "apply_chat_op st (CreateSession t) = snd (createSession t st)"
| "apply_chat_op st (AddMessage sid r text nowId stamp updated) =
     snd (addMessage sid r text nowId stamp updated st)"
| "apply_chat_op st (DeleteSession captured sid) = deleteSession captured sid st"
| "apply_chat_op st ClearAllSessions = clearAllSessions st"
| "apply_chat_op st (LoadSession sid) = loadSession sid st"

definition run_chat :: "chat_op list \<Rightarrow> chat_state" where
  "run_chat ops = foldl apply_chat_op initial_chat ops"

definition create_all :: "(string \<times> string \<times> string) list \<Rightarrow> chat_state" where
  "create_all ts = foldl (\<lambda>st t. snd (createSession t st)) initial_chat ts"

section \<open>Concrete inputs\<close>

text \<open>
  Stand-ins for the external functions, used where a handler is run on a concrete
  request: a hash, its comparison and a keyed hash. They are not bcrypt or HMAC; the
  theorems below hold for any such functions and use these only to compute examples.
\<close>

definition toy_hash :: "string \<Rightarrow> string" where
  "toy_hash p = ''$2a$10$'' @ rev p"

definition toy_compare :: "string \<Rightarrow> string \<Rightarrow> bool" where
  "toy_compare p h = (h = toy_hash p)"

definition toy_mac :: mac where
  "toy_mac secret claims =
     (case claims of (u, iat, expires) \<Rightarrow> secret @ ''.'' @ user_id u @ ''.'' @ user_email u)"

definition ana_request :: signup_body where
  "ana_request = \<lparr>name = Some ''Ana'', email = Some ''ana@x.com'', password = Some ''secret1''\<rparr>"

definition empty_db :: db where
  "empty_db = \<lparr>users = [], userStats = []\<rparr>"

definition ana_doc :: user_doc where
  "ana_doc = \<lparr>doc_id = ''65f0a1'', doc_name = ''Ana'', doc_email = ''ana@x.com'',
     doc_password = Some (toy_hash ''secret1''), doc_role = ''user'',
     doc_provider = ''credentials'', doc_createdAt = 1709373600, doc_updatedAt = 1709373600\<rparr>"

text \<open>A user created by the Google sign-in callback: no password hash.\<close>

definition ben_doc :: user_doc where
  "ben_doc = \<lparr>doc_id = ''65f0b2'', doc_name = ''Ben'', doc_email = ''ben@x.com'',
     doc_password = None, doc_role = ''user'', doc_provider = ''google'',
     doc_createdAt = 1709373600, doc_updatedAt = 1709373600\<rparr>"


definition db_with_ana_and_ben :: db where
  "db_with_ana_and_ben = \<lparr>users = [ana_doc, ben_doc], userStats = []\<rparr>"

definition no_secret_env :: auth_env where
  "no_secret_env = \<lparr>JWT_SECRET = None\<rparr>"

definition stats_22_of_39 :: LearningStats where
  "stats_22_of_39 =
     \<lparr>questionsAsked = 0, topicsLearned = [], totalCorrect = 22, totalAttempts = 39,
      streakDays = 1, lastActiveDate = ''2024-03-01'',
      dailyProgress = [\<lparr>day = ''Fri'', accuracy = 56, date = ''2024-03-01''\<rparr>]\<rparr>"

definition march_2 :: clock_reads where
  "march_2 = on_day ''2024-03-02'' ''2024-03-01'' ''Sat''"

definition march_1 :: clock_reads where
  "march_1 = on_day ''2024-03-01'' ''2024-02-29'' ''Fri''"

definition full_week :: LearningStats where
  "full_week =
     \<lparr>questionsAsked = 0, topicsLearned = [], totalCorrect = 7, totalAttempts = 7,
      streakDays = 7, lastActiveDate = ''2024-03-01'',
      dailyProgress =
        [\<lparr>day = ''Sat'', accuracy = 100, date = ''2024-02-24''\<rparr>,
         \<lparr>day = ''Sun'', accuracy = 100, date = ''2024-02-25''\<rparr>,
         \<lparr>day = ''Mon'', accuracy = 100, date = ''2024-02-26''\<rparr>,
         \<lparr>day = ''Tue'', accuracy = 100, date = ''2024-02-27''\<rparr>,
         \<lparr>day = ''Wed'', accuracy = 100, date = ''2024-02-28''\<rparr>,
         \<lparr>day = ''Thu'', accuracy = 100, date = ''2024-02-29''\<rparr>,
         \<lparr>day = ''Fri'', accuracy = 100, date = ''2024-03-01''\<rparr>]\<rparr>"

text \<open>Fifty-one clock readings with pairwise different ids: the id of reading \<open>n\<close> is \<open>n\<close> ones.\<close>

definition fifty_one_reads :: "(string \<times> string \<times> string) list" where
  "fifty_one_reads =
     map (\<lambda>n. (replicate n CHR ''1'', ''2024-03-01T10:00:00.000Z'', ''2024-03-01T10:00:00.000Z''))
       [1..<52]"

section \<open>Auxiliary facts\<close>

lemmas client_defs =
  sendMessageWithFallback_def attempt_def getGeminiModel_def getGeminiClient_def
  initializeClients_def sendMessage_def initial_state_def

lemmas response_defs = Response_json_def Response_json_status_def caught_def

lemma is_prefix_refl: "is_prefix xs xs"
  by (induction xs) simp_all

lemma names_self: "names xs xs"
  by (cases xs) (simp_all add: is_prefix_refl)

lemma names_append: "names (pre @ cause) cause"
  by (induction pre) (simp_all add: names_self)


lemma dailyProgress_updateStreak [simp]:
  "dailyProgress (updateStreak t y s) = dailyProgress s"
  by (simp add: updateStreak_def)

lemma totals_updateStreak [simp]:
  "totalCorrect (updateStreak t y s) = totalCorrect s"
  "totalAttempts (updateStreak t y s) = totalAttempts s"
  by (simp_all add: updateStreak_def)

lemma findIndex_Some:
  "findIndex P xs = Some i \<Longrightarrow> i < length xs \<and> P (xs ! i)"
proof (induction xs arbitrary: i)
  case Nil
  then show ?case by simp
next
  case (Cons x xs)
  then show ?case by (auto split: if_splits)
qed

lemma findIndex_None: "findIndex P xs = None \<longleftrightarrow> (\<forall>x \<in> set xs. \<not> P x)"
  by (induction xs) auto

lemma find_update_first:
  "findIndex P xs = Some i \<Longrightarrow> P e \<Longrightarrow> find P (xs[i := e]) = Some e"
proof (induction xs arbitrary: i)
  case Nil
  then show ?case by simp
next
  case (Cons x xs)
  then show ?case by (auto split: if_splits)
qed

lemma find_snoc:
  "\<forall>x \<in> set xs. \<not> P x \<Longrightarrow> P e \<Longrightarrow> find P (xs @ [e]) = Some e"
  by (induction xs) auto

lemma find_slice_last_snoc:
  assumes "\<forall>x \<in> set xs. \<not> P x" and "P e" and "0 < n"
  shows "find P (slice_last n (xs @ [e])) = Some e"
proof -
  have k: "length (xs @ [e]) - n \<le> length xs" using \<open>0 < n\<close> by simp
  have "\<forall>x \<in> set (drop (length (xs @ [e]) - n) xs). \<not> P x"
    using assms(1) by (meson in_set_dropD)
  from find_snoc [OF this \<open>P e\<close>] k show ?thesis
    by (simp add: slice_last_def)
qed

lemma length_slice_last: "length (slice_last n xs) \<le> n"
  by (simp add: slice_last_def)

lemma distinct_map_slice_last:
  "distinct (map f xs) \<Longrightarrow> distinct (map f (slice_last n xs))"
  unfolding slice_last_def drop_map [symmetric] by (rule distinct_drop)

lemma map_date_update:
  assumes "findIndex (\<lambda>d. date d = t) xs = Some i"
  shows "map date (xs[i := \<lparr>day = n, accuracy = a, date = t\<rparr>]) = map date xs"
proof -
  from findIndex_Some [OF assms] have "i < length xs" and "date (xs ! i) = t" by auto
  then show ?thesis by (simp add: map_update list_update_same_conv)
qed

lemma totals_recordAnswer:
  "totalCorrect (recordAnswer c b prev) = totalCorrect prev + (if b then 1 else 0)"
  "totalAttempts (recordAnswer c b prev) = totalAttempts prev + 1"
  by (simp_all add: recordAnswer_def Let_def)

lemma avgAccuracy_recordAnswer:
  "avgAccuracy (recordAnswer c b prev) =
     (if totalAttempts prev + 1 > 0
      then round_percent (totalCorrect prev + (if b then 1 else 0)) (totalAttempts prev + 1)
      else 0)"
  by (simp only: avgAccuracy_def totals_recordAnswer)

lemma recordAnswer_daily_None:
  assumes "findIndex (\<lambda>d. date d = today_read c) (dailyProgress prev) = None"
  shows "dailyProgress (recordAnswer c b prev) =
     slice_last 7 (dailyProgress prev @
       [\<lparr>day = dayName_read c, accuracy = avgAccuracy (recordAnswer c b prev),
         date = today_read c\<rparr>])"
  unfolding avgAccuracy_recordAnswer using assms by (simp add: recordAnswer_def Let_def)

lemma recordAnswer_daily_Some:
  assumes "findIndex (\<lambda>d. date d = today_read c) (dailyProgress prev) = Some i"
  shows "dailyProgress (recordAnswer c b prev) =
     (dailyProgress prev)
       [i := \<lparr>day = dayName_read c, accuracy = avgAccuracy (recordAnswer c b prev),
               date = today_read c\<rparr>]"
  unfolding avgAccuracy_recordAnswer using assms by (simp add: recordAnswer_def Let_def)

lemma daily_ok_recordAnswer:
  assumes "daily_ok prev"
  shows "daily_ok (recordAnswer c isCorrect prev)"
proof (cases "findIndex (\<lambda>d. date d = today_read c) (dailyProgress prev)")
  case None
  then have "today_read c \<notin> set (map date (dailyProgress prev))"
    by (auto simp: findIndex_None)
  with assms have "distinct (map date (dailyProgress prev @
       [\<lparr>day = dayName_read c, accuracy = avgAccuracy (recordAnswer c isCorrect prev),
         date = today_read c\<rparr>]))"
    by (simp add: daily_ok_def)
  then show ?thesis
    unfolding daily_ok_def recordAnswer_daily_None [OF None]
    by (intro conjI length_slice_last distinct_map_slice_last)
next
  case (Some i)
  with assms show ?thesis
    by (simp add: daily_ok_def recordAnswer_daily_Some map_date_update)
qed

text \<open>Values of the percentage expression, computed with the code equations.\<close>

lemma round_percent_23_40: "round_percent 23 40 = 57"
  by code_simp

lemma exact_round_percent_23_40: "exact_round_percent 23 40 = 58"
  by code_simp

lemma round_percent_small:
  "round_percent 0 1 = 0" "round_percent 1 1 = 100" "round_percent 1 2 = 50"
  by code_simp+

lemma round_percent_week:
  "round_percent 8 8 = 100" "round_percent 7 8 = 88"
  by code_simp+

lemma sessions_createSession:
  "sessions (snd (createSession t st)) = take MAX_SESSIONS (new_session t # sessions st)"
  by (simp add: createSession_def Let_def)

lemma sessions_foldl_create:
  "length (sessions st) \<le> MAX_SESSIONS \<Longrightarrow>
   sessions (foldl (\<lambda>st t. snd (createSession t st)) st ts) =
     take MAX_SESSIONS (map new_session (rev ts) @ sessions st)"
proof (induction ts arbitrary: st)
  case Nil
  then show ?case by simp
next
  case (Cons t ts)
  have "length (sessions (snd (createSession t st))) \<le> MAX_SESSIONS"
    by (simp add: sessions_createSession)
  from Cons.IH [OF this] show ?case
    by (simp add: sessions_createSession)
qed

lemma sessions_create_all:
  "sessions (create_all ts) = take MAX_SESSIONS (map new_session (rev ts))"
  by (simp add: create_all_def sessions_foldl_create initial_chat_def)

lemma take_50_of_51:
  assumes "length ts = 51"
  shows "take 50 (rev ts) = rev (tl ts)"
proof -
  from assms obtain t ts' where ts: "ts = t # ts'" and "length ts' = 50"
    by (cases ts) auto
  then show ?thesis by simp
qed

lemma length_apply_chat_op:
  assumes "length (sessions st) \<le> MAX_SESSIONS"
  shows "length (sessions (apply_chat_op st op)) \<le> MAX_SESSIONS"
proof (cases op)
  case (DeleteSession captured sid)
  have "length (filter (\<lambda>s. session_id s \<noteq> sid) (sessions st)) \<le> MAX_SESSIONS"
    by (rule order_trans [OF length_filter_le assms])
  then show ?thesis using DeleteSession by (simp add: deleteSession_def)
qed (use assms in \<open>simp_all add: sessions_createSession addMessage_def Let_def
      clearAllSessions_def loadSession_def\<close>)

lemma length_foldl_chat:
  "length (sessions st) \<le> MAX_SESSIONS \<Longrightarrow>
   length (sessions (foldl apply_chat_op st ops)) \<le> MAX_SESSIONS"
  by (induction ops arbitrary: st) (simp_all add: length_apply_chat_op)

section \<open>The claims\<close>

subsection \<open>The completion client\<close>

text \<open>
  Claim C1: \<open>complete(prompt)\<close> returns the primary result when the primary call
  succeeds, the secondary result exactly when the primary call fails and a secondary
  credential is configured, and when the primary call fails and no secondary credential
  is configured it fails without a second completion attempt, never calling again with
  the primary credential.

  The last part does not hold of the code. With only \<open>GEMINI_API_KEY_1\<close> set,
  \<open>getGeminiClient(true)\<close> falls through to \<open>client1 || client2\<close>, so the second
  \<open>try\<close> block sends the prompt again with the primary key: two calls are logged, both
  with \<open>k1\<close>. When the provider fails once and then answers, the prompt is answered by
  the second call instead of failing; when it keeps failing, the error is raised only
  after the second call.
\<close>

theorem fallback_without_secondary_calls_primary_again:
  "sendMessageWithFallback primary_only_env flaky ''hi'' initial_state =
     (Inr ''pong from k1'',
      \<lparr>client1 = Some ''k1'', client2 = None, calls = [(''k1'', ''hi''), (''k1'', ''hi'')]\<rparr>) \<and>
   sendMessageWithFallback primary_only_env outage ''hi'' initial_state =
     (Inl (Error ''Failed with both Gemini API keys: quota exceeded''),
      \<lparr>client1 = Some ''k1'', client2 = None, calls = [(''k1'', ''hi''), (''k1'', ''hi'')]\<rparr>)"
  by (simp add: client_defs primary_only_env_def flaky_def outage_def)

text \<open>
  Claim C2: when both attempts fail, the single error that is raised names both
  underlying failures.

  With two keys, the first failing with \<open>quota exceeded\<close> and the second with
  \<open>invalid key\<close>, the raised message is built from \<open>lastError\<close> alone, which the second
  \<open>catch\<close> has overwritten: the first cause does not occur in it.
\<close>

theorem combined_error_counterexample:
  "fst (attempt both_keys_env outage False ''hi'' initial_state) = Inl (Error ''quota exceeded'') \<and>
   fst (sendMessageWithFallback both_keys_env outage ''hi'' initial_state) =
     Inl (Error ''Failed with both Gemini API keys: invalid key'') \<and>
   names ''Failed with both Gemini API keys: invalid key'' ''invalid key'' \<and>
   \<not> names ''Failed with both Gemini API keys: invalid key'' ''quota exceeded''"
  by (simp add: client_defs both_keys_env_def outage_def)

text \<open>
  Claim C2, as the code has it: when both attempts fail, \<open>complete(prompt)\<close> fails with
  a single error whose message is \<open>Failed with both Gemini API keys: \<close> followed by the
  message of the second (last) failure, and so names that failure.
\<close>

theorem combined_error_carries_last_failure:
  assumes "attempt env p False msg st = (Inl e1, st1)"
    and "attempt env p True msg st1 = (Inl e2, st2)"
  shows "sendMessageWithFallback env p msg st =
           (Inl (Error (''Failed with both Gemini API keys: '' @ message e2)), st2) \<and>
         names (''Failed with both Gemini API keys: '' @ message e2) (message e2)"
proof
  show "sendMessageWithFallback env p msg st =
      (Inl (Error (''Failed with both Gemini API keys: '' @ message e2)), st2)"
    using assms by (simp add: sendMessageWithFallback_def)
  show "names (''Failed with both Gemini API keys: '' @ message e2) (message e2)"
    by (rule names_append)
qed

theorem combined_error_carries_last_failure_witness:
  "sendMessageWithFallback both_keys_env outage ''hi'' initial_state =
     (Inl (Error ''Failed with both Gemini API keys: invalid key''),
      \<lparr>client1 = Some ''k1'', client2 = Some ''k2'', calls = [(''k1'', ''hi''), (''k2'', ''hi'')]\<rparr>) \<and>
   names ''Failed with both Gemini API keys: invalid key'' ''invalid key''"
proof -
  have a1: "attempt both_keys_env outage False ''hi'' initial_state =
      (Inl (Error ''quota exceeded''),
       \<lparr>client1 = Some ''k1'', client2 = Some ''k2'', calls = [(''k1'', ''hi'')]\<rparr>)"
    by (simp add: client_defs both_keys_env_def outage_def)
  have a2: "attempt both_keys_env outage True ''hi''
        \<lparr>client1 = Some ''k1'', client2 = Some ''k2'', calls = [(''k1'', ''hi'')]\<rparr> =
      (Inl (Error ''invalid key''),
       \<lparr>client1 = Some ''k1'', client2 = Some ''k2'', calls = [(''k1'', ''hi''), (''k2'', ''hi'')]\<rparr>)"
    by (simp add: client_defs both_keys_env_def outage_def)
  from combined_error_carries_last_failure [OF a1 a2] show ?thesis by simp
qed

text \<open>
  Claim C6: with no completion credential configured, constructing the client fails at
  once with a configuration error, and it fails before any completion attempt.

  Both variables unset or empty: \<open>initializeClients\<close> throws
  \<open>No Gemini API keys configured\<close>; so does \<open>getGeminiClient\<close> whenever no client
  exists yet; and \<open>sendMessageWithFallback\<close> fails with the state unchanged, so no
  \<open>sendMessage\<close> call was added to the log.
\<close>

theorem no_credentials_is_a_configuration_error:
  assumes "\<not> truthy (GEMINI_API_KEY_1 env)" and "\<not> truthy (GEMINI_API_KEY_2 env)"
    and "client1 st = None" and "client2 st = None"
  shows "initializeClients env st = Inl (Error ''No Gemini API keys configured'') \<and>
         getGeminiClient env useSecondary st = Inl (Error ''No Gemini API keys configured'') \<and>
         sendMessageWithFallback env p msg st =
           (Inl (Error ''Failed with both Gemini API keys: No Gemini API keys configured''), st)"
  using assms by (simp add: client_defs)

theorem no_credentials_is_a_configuration_error_witness:
  "initializeClients no_keys_env initial_state = Inl (Error ''No Gemini API keys configured'') \<and>
   getGeminiClient no_keys_env False initial_state =
     Inl (Error ''No Gemini API keys configured'') \<and>
   calls (snd (sendMessageWithFallback no_keys_env flaky ''hi'' initial_state)) = []"
  using no_credentials_is_a_configuration_error
          [of no_keys_env initial_state False flaky "''hi''"]
  by (simp add: no_keys_env_def initial_state_def)

subsection \<open>Signup, login and tokens\<close>

text \<open>
  Claim C3: every valid signup request (name, email and password present, email not
  registered) succeeds with a response holding the user's public fields and a token.

  The handler answers a valid request with \<open>success\<close>, \<open>user\<close> and \<open>message\<close>; the body
  has no \<open>token\<close> field. Ana's signup on an empty store:
\<close>

theorem signup_response_token_counterexample:
  "status (fst (signup_POST no_faults toy_hash ''65f0a1'' 1709373600 (Inr ana_request) empty_db)) = 200 \<and>
   map fst (body (fst (signup_POST no_faults toy_hash ''65f0a1'' 1709373600 (Inr ana_request) empty_db))) =
     [''success'', ''user'', ''message''] \<and>
   map_of (body (fst (signup_POST no_faults toy_hash ''65f0a1'' 1709373600 (Inr ana_request) empty_db)))
     ''token'' = None"
  by (simp add: signup_POST_def response_defs no_faults_def ana_request_def empty_db_def
      findOne_email_def Let_def)

text \<open>
  Claim C3, as the code has it: every valid signup request, when no call to the store or
  to the hash throws, succeeds with status 200 and a body of exactly \<open>success: true\<close>,
  the created user's public fields \<open>{id, name, email}\<close> and a message; the body holds no
  token. The user document is in the store afterwards.
\<close>

theorem signup_returns_user_without_token:
  assumes "connectDB_throws F = None" and "findOne_throws F = None"
    and "bcrypt_throws F = None" and "insertOne_users_throws F = None"
    and "insertOne_userStats_throws F = None"
    and "n \<noteq> []" and "e \<noteq> []" and "p \<noteq> []"
    and "findOne_email d e = None"
    and "r = signup_POST F bhash insertedId now
               (Inr \<lparr>name = Some n, email = Some e, password = Some p\<rparr>) d"
  shows "fst r =
           \<lparr>status = 200,
            body = [(''success'', JBool True),
                    (''user'', JObject [(''id'', JString insertedId), (''name'', JString n),
                                        (''email'', JString e)]),
                    (''message'', JString ''Account created successfully'')]\<rparr> \<and>
         map_of (body (fst r)) ''token'' = None \<and>
         map doc_email (users (snd r)) = map doc_email (users d) @ [e]"
  using assms by (simp add: signup_POST_def response_defs Let_def)

theorem signup_returns_user_without_token_witness:
  "fst (signup_POST no_faults toy_hash ''65f0a1'' 1709373600 (Inr ana_request) empty_db) =
     \<lparr>status = 200,
      body = [(''success'', JBool True),
              (''user'', JObject [(''id'', JString ''65f0a1''), (''name'', JString ''Ana''),
                                  (''email'', JString ''ana@x.com'')]),
              (''message'', JString ''Account created successfully'')]\<rparr>"
  using signup_returns_user_without_token
          [of no_faults "''Ana''" "''ana@x.com''" "''secret1''" empty_db _ toy_hash "''65f0a1''"
              1709373600, OF _ _ _ _ _ _ _ _ _ refl]
  by (simp add: no_faults_def empty_db_def findOne_email_def ana_request_def)

text \<open>
  What holds of the two failures: when the record found has a password hash and the
  password sent is a string, and the store and the comparison answer, the response to
  a wrong password is the response to an unknown email.
\<close>

lemma login_failures_same_with_stored_hash:
  assumes "connectDB_throws F = None" and "findOne_throws F = None"
    and "bcrypt_throws F = None"
    and "e1 \<noteq> []" and "truthy_json (Some pw1)" and "e2 \<noteq> []" and "p2 \<noteq> []"
    and "findOne_email d e1 = None"
    and "findOne_email d e2 = Some u" and "doc_password u = Some hsh"
    and "\<not> bcompare p2 hsh"
  shows "login_POST F bcompare h env now
           (Inr \<lparr>login_email = Some e1, login_password = Some pw1\<rparr>) d =
         login_POST F bcompare h env now
           (Inr \<lparr>login_email = Some e2, login_password = Some (JString p2)\<rparr>) d \<and>
         login_POST F bcompare h env now
           (Inr \<lparr>login_email = Some e2, login_password = Some (JString p2)\<rparr>) d =
         \<lparr>status = 401, body = [(''error'', JString ''Invalid email or password'')]\<rparr>"
  using assms by (simp add: login_POST_def bcrypt_compare_def response_defs)

text \<open>
  Claim C5: for every state of the credential store, a login with an email that has no
  user record and a login with an existing email and a password that does not match
  get the same response: status 401 and the same generic message.

  The two \<open>401\<close> branches of the handler carry the same message, but the comparison
  in between is not guarded. The store holds Ana, who signed up with a password, and Ben,
  whose record the Google sign-in callback created without a hash. No call to the store
  fails. A login with the unknown \<open>bob@x.com\<close> answers 401 with the generic message; the
  same password sent for \<open>ben@x.com\<close> makes \<open>bcrypt.compare\<close> throw on the missing
  hash, and the \<open>catch\<close> answers 500 with the library's message. The same happens for
  Ana's email when the password sent is not a string. Either response tells the caller
  that the email is registered.
\<close>

theorem login_reveals_registered_email:
  "login_POST no_faults toy_compare toy_mac no_secret_env 1709373600
     (Inr \<lparr>login_email = Some ''bob@x.com'', login_password = Some (JString ''guess'')\<rparr>)
     db_with_ana_and_ben =
     \<lparr>status = 401, body = [(''error'', JString ''Invalid email or password'')]\<rparr> \<and>
   login_POST no_faults toy_compare toy_mac no_secret_env 1709373600
     (Inr \<lparr>login_email = Some ''ben@x.com'', login_password = Some (JString ''guess'')\<rparr>)
     db_with_ana_and_ben =
     \<lparr>status = 500, body = [(''error'', JString ''data and hash arguments required'')]\<rparr> \<and>
   login_POST no_faults toy_compare toy_mac no_secret_env 1709373600
     (Inr \<lparr>login_email = Some ''bob@x.com'', login_password = Some (JNumber 7)\<rparr>)
     db_with_ana_and_ben =
     \<lparr>status = 401, body = [(''error'', JString ''Invalid email or password'')]\<rparr> \<and>
   login_POST no_faults toy_compare toy_mac no_secret_env 1709373600
     (Inr \<lparr>login_email = Some ''ana@x.com'', login_password = Some (JNumber 7)\<rparr>)
     db_with_ana_and_ben =
     \<lparr>status = 500, body = [(''error'', JString ''data and hash must be strings'')]\<rparr>"
  by (simp add: login_POST_def bcrypt_compare_def response_defs no_faults_def
      db_with_ana_and_ben_def ana_doc_def ben_doc_def findOne_email_def)

theorem login_reveals_registered_email_witness:
  "login_POST no_faults toy_compare toy_mac no_secret_env 1709373600
     (Inr \<lparr>login_email = Some ''bob@x.com'', login_password = Some (JString ''guess'')\<rparr>)
     db_with_ana_and_ben \<noteq>
   login_POST no_faults toy_compare toy_mac no_secret_env 1709373600
     (Inr \<lparr>login_email = Some ''ben@x.com'', login_password = Some (JString ''guess'')\<rparr>)
     db_with_ana_and_ben"
  using login_reveals_registered_email by simp



subsection \<open>Learning statistics\<close>

text \<open>
  Claim C4: the streak transition leaves the state unchanged when \<open>last_active_date\<close> is
  today; adds exactly 1 to \<open>streak_days\<close> and sets \<open>last_active_date\<close> to today when it
  is yesterday; and otherwise (a gap of two days or more, or no activity yet) sets
  \<open>streak_days\<close> to 1 and \<open>last_active_date\<close> to today. Hence it is idempotent within
  a calendar day.

  \<open>today\<close> and \<open>yesterday\<close> are the two dates \<open>updateStreak\<close> computes, one day apart
  and so different (when they coincide the first case decides, as in the code). The last conjunct is the second run on the same day: it changes
  nothing.
\<close>

theorem updateStreak_transition:
  assumes "today \<noteq> yesterday"
  shows "(lastActiveDate s = today \<longrightarrow> updateStreak today yesterday s = s) \<and>
         (lastActiveDate s = yesterday \<longrightarrow>
            updateStreak today yesterday s =
              s\<lparr>streakDays := streakDays s + 1, lastActiveDate := today\<rparr>) \<and>
         (lastActiveDate s \<noteq> today \<and> lastActiveDate s \<noteq> yesterday \<longrightarrow>
            updateStreak today yesterday s = s\<lparr>streakDays := 1, lastActiveDate := today\<rparr>) \<and>
         updateStreak today yesterday (updateStreak today yesterday s) =
           updateStreak today yesterday s"
  using assms by (simp add: updateStreak_def)

theorem updateStreak_transition_witness:
  "updateStreak ''2024-03-01'' ''2024-02-29'' stats_22_of_39 = stats_22_of_39 \<and>
   streakDays (updateStreak ''2024-03-02'' ''2024-03-01'' stats_22_of_39) = 2 \<and>
   streakDays (updateStreak ''2024-03-09'' ''2024-03-08'' stats_22_of_39) = 1 \<and>
   streakDays (updateStreak ''2024-03-09'' ''2024-03-08'' getDefaultStats) = 1 \<and>
   lastActiveDate (updateStreak ''2024-03-09'' ''2024-03-08'' getDefaultStats) = ''2024-03-09''"
  using updateStreak_transition [of "''2024-03-01''" "''2024-02-29''" stats_22_of_39]
    updateStreak_transition [of "''2024-03-02''" "''2024-03-01''" stats_22_of_39]
    updateStreak_transition [of "''2024-03-09''" "''2024-03-08''" stats_22_of_39]
    updateStreak_transition [of "''2024-03-09''" "''2024-03-08''" getDefaultStats]
  by (simp add: stats_22_of_39_def getDefaultStats_def)

text \<open>
  Claim C8: \<open>daily_progress\<close> never has more than 7 entries and never two entries with
  the same date, and every \<open>recordAnswer\<close> call preserves this: the day's bucket is
  replaced in place when the date is present, otherwise appended, the list cut to the
  most recent 7.

  The invariant holds of the default statistics and is preserved by every call of
  \<open>recordAnswer\<close>, and by the two other updates, which leave the list alone. When
  today's date is present, the new list is the old one with the bucket at the first
  index of that date (the only one, under the invariant) overwritten by today's new
  bucket, so the dates are unchanged, position by position; when it is absent the new
  list is the last 7 of the old list with today's bucket appended.
\<close>

theorem recordAnswer_keeps_daily_progress_invariant:
  assumes "daily_ok prev"
  shows "daily_ok getDefaultStats \<and>
         daily_ok (recordAnswer c isCorrect prev) \<and>
         daily_ok (incrementQuestions t y prev) \<and>
         daily_ok (addTopic t y topic prev) \<and>
         (today_read c \<in> set (map date (dailyProgress prev)) \<longrightarrow>
            map date (dailyProgress (recordAnswer c isCorrect prev)) =
              map date (dailyProgress prev)) \<and>
         (today_read c \<in> set (map date (dailyProgress prev)) \<longrightarrow>
            (\<exists>i < length (dailyProgress prev).
               findIndex (\<lambda>d. date d = today_read c) (dailyProgress prev) = Some i \<and>
               date (dailyProgress prev ! i) = today_read c \<and>
               dailyProgress (recordAnswer c isCorrect prev) =
                 (dailyProgress prev)
                   [i := \<lparr>day = dayName_read c,
                          accuracy = avgAccuracy (recordAnswer c isCorrect prev),
                          date = today_read c\<rparr>])) \<and>
         (today_read c \<notin> set (map date (dailyProgress prev)) \<longrightarrow>
            dailyProgress (recordAnswer c isCorrect prev) =
              slice_last 7 (dailyProgress prev @
                [\<lparr>day = dayName_read c,
                  accuracy = avgAccuracy (recordAnswer c isCorrect prev),
                  date = today_read c\<rparr>]))"
proof (intro conjI impI)
  show "daily_ok getDefaultStats"
    by (simp add: daily_ok_def getDefaultStats_def)
  show "daily_ok (recordAnswer c isCorrect prev)"
    by (rule daily_ok_recordAnswer [OF assms])
  show "daily_ok (incrementQuestions t y prev)"
    using assms by (simp add: daily_ok_def incrementQuestions_def Let_def)
  show "daily_ok (addTopic t y topic prev)"
    using assms by (simp add: daily_ok_def addTopic_def Let_def)
next
  assume "today_read c \<in> set (map date (dailyProgress prev))"
  then have "findIndex (\<lambda>d. date d = today_read c) (dailyProgress prev) \<noteq> None"
    by (auto simp: findIndex_None)
  then obtain i where "findIndex (\<lambda>d. date d = today_read c) (dailyProgress prev) = Some i"
    by blast
  then show "map date (dailyProgress (recordAnswer c isCorrect prev)) =
      map date (dailyProgress prev)"
    by (simp add: recordAnswer_daily_Some map_date_update)
next
  assume "today_read c \<in> set (map date (dailyProgress prev))"
  then have "findIndex (\<lambda>d. date d = today_read c) (dailyProgress prev) \<noteq> None"
    by (auto simp: findIndex_None)
  then obtain i where i: "findIndex (\<lambda>d. date d = today_read c) (dailyProgress prev) = Some i"
    by blast
  from findIndex_Some [OF i] recordAnswer_daily_Some [OF i, of isCorrect] i
  show "\<exists>i < length (dailyProgress prev).
      findIndex (\<lambda>d. date d = today_read c) (dailyProgress prev) = Some i \<and>
      date (dailyProgress prev ! i) = today_read c \<and>
      dailyProgress (recordAnswer c isCorrect prev) =
        (dailyProgress prev)
          [i := \<lparr>day = dayName_read c,
                 accuracy = avgAccuracy (recordAnswer c isCorrect prev),
                 date = today_read c\<rparr>]"
    by blast
next
  assume "today_read c \<notin> set (map date (dailyProgress prev))"
  then have "\<forall>x \<in> set (dailyProgress prev). \<not> date x = today_read c"
    by force
  then have "findIndex (\<lambda>d. date d = today_read c) (dailyProgress prev) = None"
    by (simp add: findIndex_None)
  then show "dailyProgress (recordAnswer c isCorrect prev) =
      slice_last 7 (dailyProgress prev @
        [\<lparr>day = dayName_read c, accuracy = avgAccuracy (recordAnswer c isCorrect prev),
          date = today_read c\<rparr>])"
    by (rule recordAnswer_daily_None)
qed

theorem recordAnswer_keeps_daily_progress_invariant_witness:
  "daily_ok full_week \<and> daily_ok (recordAnswer march_2 True full_week) \<and>
   map date (dailyProgress (recordAnswer march_2 True full_week)) =
     [''2024-02-25'', ''2024-02-26'', ''2024-02-27'', ''2024-02-28'', ''2024-02-29'',
      ''2024-03-01'', ''2024-03-02''] \<and>
   daily_ok (recordAnswer march_1 False full_week) \<and>
   dailyProgress (recordAnswer march_1 False full_week) =
     (dailyProgress full_week)[6 := \<lparr>day = ''Fri'', accuracy = 88, date = ''2024-03-01''\<rparr>]"
proof -
  have ok: "daily_ok full_week"
    by (simp add: daily_ok_def full_week_def)
  have new: "today_read march_2 \<notin> set (map date (dailyProgress full_week))"
    by (simp add: march_2_def on_day_def full_week_def)
  from recordAnswer_keeps_daily_progress_invariant [OF ok, of march_2 True] new
  have inv: "daily_ok (recordAnswer march_2 True full_week)"
    and eq: "dailyProgress (recordAnswer march_2 True full_week) =
      slice_last 7 (dailyProgress full_week @
        [\<lparr>day = dayName_read march_2, accuracy = avgAccuracy (recordAnswer march_2 True full_week),
          date = today_read march_2\<rparr>])"
    by blast+
  have dates: "map date (dailyProgress (recordAnswer march_2 True full_week)) =
     [''2024-02-25'', ''2024-02-26'', ''2024-02-27'', ''2024-02-28'', ''2024-02-29'',
      ''2024-03-01'', ''2024-03-02'']"
    unfolding eq by (simp add: slice_last_def full_week_def march_2_def on_day_def)
  have old: "today_read march_1 \<in> set (map date (dailyProgress full_week))"
    by (simp add: march_1_def on_day_def full_week_def)
  have six: "findIndex (\<lambda>d. date d = today_read march_1) (dailyProgress full_week) = Some 6"
    by (simp add: march_1_def on_day_def full_week_def)
  have acc: "avgAccuracy (recordAnswer march_1 False full_week) = 88"
    by (simp add: avgAccuracy_recordAnswer full_week_def round_percent_week)
  from recordAnswer_keeps_daily_progress_invariant [OF ok, of march_1 False] old
  have inv': "daily_ok (recordAnswer march_1 False full_week)"
    and "\<exists>i < length (dailyProgress full_week).
      findIndex (\<lambda>d. date d = today_read march_1) (dailyProgress full_week) = Some i \<and>
      date (dailyProgress full_week ! i) = today_read march_1 \<and>
      dailyProgress (recordAnswer march_1 False full_week) =
        (dailyProgress full_week)
          [i := \<lparr>day = dayName_read march_1,
                 accuracy = avgAccuracy (recordAnswer march_1 False full_week),
                 date = today_read march_1\<rparr>]"
    by blast+
  with six acc have "dailyProgress (recordAnswer march_1 False full_week) =
     (dailyProgress full_week)[6 := \<lparr>day = ''Fri'', accuracy = 88, date = ''2024-03-01''\<rparr>]"
    by (auto simp: march_1_def on_day_def)
  with ok inv dates inv' show ?thesis by simp
qed

text \<open>
  Claim C9: the accuracy \<open>recordAnswer\<close> stores in the day's bucket is the lifetime
  accuracy \<open>round(100 * total_correct / total_attempts)\<close> over the all-time totals at the
  moment of the call, not the accuracy of that day's answers; so it depends on the
  answers of earlier days.

  The stored number is not always the rounded percentage. With 22 correct of 39 before
  the call, a correct answer makes the totals 23 of 40, and 100 * 23 / 40 = 57.5 rounds
  to 58; the code computes \<open>(23 / 40) * 100\<close> in doubles, where the quotient 0.575 is
  not representable and the product is 57.49999999999999, and stores 57.
\<close>

theorem stored_accuracy_counterexample:
  "totalCorrect (recordAnswer march_2 True stats_22_of_39) = 23 \<and>
   totalAttempts (recordAnswer march_2 True stats_22_of_39) = 40 \<and>
   map accuracy (dailyProgress (recordAnswer march_2 True stats_22_of_39)) = [56, 57] \<and>
   exact_round_percent 23 40 = 58"
  by (simp add: recordAnswer_def updateStreak_def Let_def stats_22_of_39_def march_2_def
      on_day_def slice_last_def round_percent_23_40 exact_round_percent_23_40)

text \<open>
  Claim C9, as the code has it: the accuracy \<open>recordAnswer\<close> stores in the day's bucket
  is \<open>Math.round((total_correct / total_attempts) * 100)\<close>, evaluated in double
  precision on the all-time totals as they are after the call (the expression of
  \<open>avgAccuracy\<close>), not the accuracy of that day's answers; so it depends on the answers
  of earlier days. It can be one less than the percentage rounded exactly.

  The first bucket dated today in the new list is the one just written, and its accuracy
  is \<open>avgAccuracy\<close> of the new statistics, whose totals are the old ones plus this
  answer. One correct answer on 2 March is stored as 100 when it is the first answer ever
  and as 50 after one wrong answer on 1 March.
\<close>

theorem stored_accuracy_is_lifetime_accuracy:
  "find (\<lambda>d. date d = today_read c) (dailyProgress (recordAnswer c isCorrect prev)) =
     Some \<lparr>day = dayName_read c, accuracy = avgAccuracy (recordAnswer c isCorrect prev),
           date = today_read c\<rparr> \<and>
   avgAccuracy (recordAnswer c isCorrect prev) =
     (if totalAttempts prev + 1 > 0
      then round_percent (totalCorrect prev + (if isCorrect then 1 else 0))
             (totalAttempts prev + 1)
      else 0) \<and>
   map accuracy (dailyProgress (recordAnswer march_2 True getDefaultStats)) = [100] \<and>
   map accuracy (dailyProgress
     (recordAnswer march_2 True (recordAnswer march_1 False getDefaultStats))) = [0, 50]"
proof (intro conjI)
  show "find (\<lambda>d. date d = today_read c) (dailyProgress (recordAnswer c isCorrect prev)) =
     Some \<lparr>day = dayName_read c, accuracy = avgAccuracy (recordAnswer c isCorrect prev),
           date = today_read c\<rparr>"
  proof (cases "findIndex (\<lambda>d. date d = today_read c) (dailyProgress prev)")
    case None
    then have "\<forall>x \<in> set (dailyProgress prev). \<not> date x = today_read c"
      by (simp add: findIndex_None)
    then show ?thesis
      unfolding recordAnswer_daily_None [OF None]
      by (intro find_slice_last_snoc) simp_all
  next
    case (Some i)
    show ?thesis
      unfolding recordAnswer_daily_Some [OF Some]
      by (rule find_update_first [OF Some]) simp
  qed
  show "avgAccuracy (recordAnswer c isCorrect prev) =
     (if totalAttempts prev + 1 > 0
      then round_percent (totalCorrect prev + (if isCorrect then 1 else 0))
             (totalAttempts prev + 1)
      else 0)"
    by (rule avgAccuracy_recordAnswer)
  show "map accuracy (dailyProgress (recordAnswer march_2 True getDefaultStats)) = [100]"
    by (simp add: recordAnswer_def updateStreak_def Let_def getDefaultStats_def march_2_def
        on_day_def slice_last_def round_percent_small)
  show "map accuracy (dailyProgress
     (recordAnswer march_2 True (recordAnswer march_1 False getDefaultStats))) = [0, 50]"
    by (simp add: recordAnswer_def updateStreak_def Let_def getDefaultStats_def march_2_def
        march_1_def on_day_def slice_last_def round_percent_small)
qed

subsection \<open>Chat sessions\<close>

text \<open>
  Claim C7: the session list never holds more than 50 sessions, and the 51st
  \<open>createSession\<close> evicts the oldest: after 51 calls from the empty list exactly 50
  sessions are kept and the first one created is gone.

  The bound holds after any sequence of calls of the hook's operations from the empty
  list, for the list in the state and for the part of it that is handed out and saved
  (the sessions with a message). After 51 creations the list is the sessions of the last 50 readings, newest
  first; the first creation has no position in it, and when its id differs from the
  later ids no kept session carries that id (two creations within one millisecond get
  the same id from \<open>Date.now()\<close>).
\<close>

theorem session_list_capped_oldest_evicted:
  "length (sessions (run_chat ops)) \<le> 50 \<and>
   length (sessionsWithMessages (run_chat ops)) \<le> 50 \<and>
   (length ts = 51 \<longrightarrow>
      sessions (create_all ts) = map new_session (rev (tl ts)) \<and>
      length (sessions (create_all ts)) = 50 \<and>
      (fst (hd ts) \<notin> set (map fst (tl ts)) \<longrightarrow>
         fst (hd ts) \<notin> set (map session_id (sessions (create_all ts)))))"
proof (intro conjI impI)
  show bound: "length (sessions (run_chat ops)) \<le> 50"
    using length_foldl_chat [of initial_chat ops]
    by (simp add: run_chat_def initial_chat_def MAX_SESSIONS_def)
  show "length (sessionsWithMessages (run_chat ops)) \<le> 50"
    unfolding sessionsWithMessages_def by (rule order_trans [OF length_filter_le bound])
next
  assume len: "length ts = 51"
  show eq: "sessions (create_all ts) = map new_session (rev (tl ts))"
    by (simp add: sessions_create_all MAX_SESSIONS_def take_map take_50_of_51 [OF len])
  show "length (sessions (create_all ts)) = 50"
    using len by (simp add: eq)
  assume "fst (hd ts) \<notin> set (map fst (tl ts))"
  moreover have "map session_id (map new_session (rev (tl ts))) = map fst (rev (tl ts))"
    by (simp add: new_session_def split_def)
  ultimately show "fst (hd ts) \<notin> set (map session_id (sessions (create_all ts)))"
    by (simp add: eq)
qed

theorem session_list_capped_oldest_evicted_witness:
  "length fifty_one_reads = 51 \<and>
   length (sessions (create_all fifty_one_reads)) = 50 \<and>
   ''1'' \<notin> set (map session_id (sessions (create_all fifty_one_reads)))"
proof -
  have a: "length fifty_one_reads = 51"
    by (simp add: fifty_one_reads_def)
  have hd: "fst (hd fifty_one_reads) = ''1''"
    by code_simp
  have b: "fst (hd fifty_one_reads) \<notin> set (map fst (tl fifty_one_reads))"
    by code_simp
  from session_list_capped_oldest_evicted [of "[]" fifty_one_reads] a b
  have "length (sessions (create_all fifty_one_reads)) = 50"
    and "fst (hd fifty_one_reads) \<notin> set (map session_id (sessions (create_all fifty_one_reads)))"
    by blast+
  with a hd show ?thesis by simp
qed

end
